theory Spec2Isabelle
  imports Complex_Main
begin

section \<open>Data model of the food ordering application (app.py)\<close>

text \<open>
  The SQLAlchemy models become records, one per table, and a record of tables stands for the
  database. A value of a Float column is modelled as the real number that the double denotes
  (infinities and NaN are left out); the arithmetic on such values rounds, and is a parameter
  of the handlers that compute a total, see the float operations below. The column
  \<open>Order.created_at\<close> (the clock of the database server) and the relationship attributes,
  which are derived from the foreign keys, are left out.
\<close>

record User =
  u_id :: int
  u_username :: string
  u_email :: string
  u_password :: string
  u_is_admin :: bool

record Category =
  c_id :: int
  c_name :: string

record MenuItem =
  mi_id :: int
  mi_name :: string
  mi_description :: "string option"
  mi_price :: real
  mi_image :: "string option"
  mi_category_id :: int

record Order =
  o_id :: int
  o_user_id :: int
  o_total :: real
  o_status :: string

record OrderItem =
  oi_id :: int
  oi_order_id :: int
  oi_menu_item_id :: int
  oi_quantity :: int
  oi_price :: real

text \<open>An entry of the session cart: the dict that \<open>add_to_cart\<close> appends.\<close>

record cart_item =
  ci_id :: int
  ci_name :: string
  ci_price :: real
  ci_quantity :: int
  ci_image :: "string option"

record db =
  users :: "User list"
  categories :: "Category list"
  menu_items :: "MenuItem list"
  orders :: "Order list"
  order_items :: "OrderItem list"

text \<open>
  The Flask session is a dict; a key that is absent is \<open>None\<close> here. \<open>cart = None\<close> is
  \<open>'cart' not in session\<close>, which differs from an empty list under that key.
\<close>

record session =
  user_id :: "int option"
  username :: "string option"
  is_admin :: "bool option"
  cart :: "cart_item list option"

type_synonym form = "string \<rightharpoonup> string"

datatype py_exception = TypeError | ValueError | KeyError | AttributeError

text \<open>
  What a handler answers: a redirect to \<open>url_for(endpoint, **values)\<close>, a rendered page
  with the values handed to the template, \<open>abort(code)\<close>, or an exception that nothing
  catches.
\<close>

datatype response =
    Redirect string "(string \<times> int) list"
  | Render_cart "cart_item list" real
  | Render_order_confirmation Order
  | Abort nat
  | Raised py_exception

text \<open>
  The outcome of a request: the response, the messages passed to \<open>flash\<close> (message and
  category, in order), the session and the database afterwards.
\<close>

record outcome =
  resp :: response
  flashes :: "(string \<times> string) list"
  sess :: session
  store :: db

subsection \<open>Float operations\<close>

text \<open>
  The totals are computed by Python's builtin \<open>sum\<close> over products of a float and an int.
  Neither is code of this application and both round, so the handlers take them as
  parameters: \<open>float_sum\<close> is \<open>sum\<close> on a list of floats (started from the int 0) and
  \<open>float_mul\<close> is the product of a float and an int.
\<close>

record float_ops =
  float_sum :: "real list \<Rightarrow> real"
  float_mul :: "real \<Rightarrow> int \<Rightarrow> real"

subsection \<open>Queries\<close>

text \<open>\<open>Model.query.get(k)\<close>: the row with primary key \<open>k\<close>, or None.\<close>

definition query_get :: "('r \<Rightarrow> int) \<Rightarrow> 'r list \<Rightarrow> int \<Rightarrow> 'r option" where
  "query_get key rows k = find (\<lambda>r. key r = k) rows"

text \<open>
  The primary key SQLite gives to an inserted row: one more than the largest key of the
  table, 1 in an empty table. Keys are positive, so the fold may start from 0.
\<close>

definition next_id :: "int list \<Rightarrow> int" where
  "next_id ids = fold max ids 0 + 1"

text \<open>\<open>session.get('cart', [])\<close>\<close>

definition get_cart :: "session \<Rightarrow> cart_item list" where
  "get_cart s = (case cart s of None \<Rightarrow> [] | Some c \<Rightarrow> c)"

subsection \<open>Access guards\<close>

definition login_required :: "(session \<Rightarrow> db \<Rightarrow> outcome) \<Rightarrow> session \<Rightarrow> db \<Rightarrow> outcome" where
  "login_required f s d =
     (if user_id s = None
      then \<lparr>resp = Redirect ''login'' [],
            flashes = [(''Please log in to access this page.'', ''danger'')],
            sess = s, store = d\<rparr>
      else f s d)"

text \<open>
  \<open>User.query.get(session['user_id']).is_admin\<close> reads an attribute of None when the
  session names a user that has no row.
\<close>

definition admin_required :: "(session \<Rightarrow> db \<Rightarrow> outcome) \<Rightarrow> session \<Rightarrow> db \<Rightarrow> outcome" where
  "admin_required f s d =
     (let denied = \<lparr>resp = Redirect ''index'' [],
                    flashes = [(''You do not have permission to access this page.'', ''danger'')],
                    sess = s, store = d\<rparr>
      in case user_id s of
           None \<Rightarrow> denied
         | Some uid \<Rightarrow>
             (case query_get u_id (users d) uid of
                None \<Rightarrow> \<lparr>resp = Raised AttributeError, flashes = [], sess = s, store = d\<rparr>
              | Some u \<Rightarrow> if \<not> u_is_admin u then denied else f s d))"

section \<open>Session cart\<close>

text \<open>
  The loop of \<open>add_to_cart\<close> over the cart: the first entry with the item's id gets its
  quantity incremented and the loop returns; None when the loop ends without a match.
\<close>

fun increment_existing :: "int \<Rightarrow> cart_item list \<Rightarrow> cart_item list option" where
  "increment_existing iid [] = None"
| "increment_existing iid (c # cs) =
     (if ci_id c = iid then Some (c\<lparr>ci_quantity := ci_quantity c + 1\<rparr> # cs)
      else map_option ((#) c) (increment_existing iid cs))"

text \<open>
  The key \<open>'cart'\<close> is created before the item is looked up, so a request for an item that
  does not exist still leaves an empty cart in the session.
\<close>

definition add_to_cart :: "int \<Rightarrow> session \<Rightarrow> db \<Rightarrow> outcome" where
  "add_to_cart item_id s d =
     (let s1 = (if cart s = None then s\<lparr>cart := Some []\<rparr> else s)
      in case query_get mi_id (menu_items d) item_id of
           None \<Rightarrow> \<lparr>resp = Abort 404, flashes = [], sess = s1, store = d\<rparr>
         | Some item \<Rightarrow>
             (case increment_existing (mi_id item) (get_cart s1) of
                Some c' \<Rightarrow>
                  \<lparr>resp = Redirect ''customer_menu'' [],
                   flashes = [(''Added another '' @ mi_name item @ '' to your cart'', ''success'')],
                   sess = s1\<lparr>cart := Some c'\<rparr>, store = d\<rparr>
              | None \<Rightarrow>
                  \<lparr>resp = Redirect ''customer_menu'' [],
                   flashes = [(''Added '' @ mi_name item @ '' to your cart'', ''success'')],
                   sess = s1\<lparr>cart := Some (get_cart s1 @
                            [\<lparr>ci_id = mi_id item, ci_name = mi_name item, ci_price = mi_price item,
                              ci_quantity = 1, ci_image = mi_image item\<rparr>])\<rparr>,
                   store = d\<rparr>))"

text \<open>\<open>sum(item['price'] * item['quantity'] for item in cart)\<close>, the products in cart order.\<close>

definition cart_total :: "float_ops \<Rightarrow> cart_item list \<Rightarrow> real" where
  "cart_total ops c =
     float_sum ops (map (\<lambda>item. float_mul ops (ci_price item) (ci_quantity item)) c)"

definition view_cart :: "float_ops \<Rightarrow> session \<Rightarrow> db \<Rightarrow> outcome" where
  "view_cart ops s d =
     (let c = get_cart s; total = cart_total ops c
      in \<lparr>resp = Render_cart c total, flashes = [], sess = s, store = d\<rparr>)"

text \<open>\<open>del cart[index]\<close> for an index in range.\<close>

definition del_at :: "nat \<Rightarrow> 'a list \<Rightarrow> 'a list" where
  "del_at i xs = take i xs @ drop (Suc i) xs"

definition update_cart :: "int \<Rightarrow> form \<Rightarrow> session \<Rightarrow> db \<Rightarrow> outcome" where
  "update_cart index frm s d =
     (let c = get_cart s
      in if 0 \<le> index \<and> index < int (length c)
         then
           (let i = nat index;
                action = frm ''action'';
                c' = (if action = Some ''increase''
                      then c[i := (c ! i)\<lparr>ci_quantity := ci_quantity (c ! i) + 1\<rparr>]
                      else if action = Some ''decrease''
                      then (let c1 = c[i := (c ! i)\<lparr>ci_quantity := ci_quantity (c ! i) - 1\<rparr>]
                            in if ci_quantity (c1 ! i) \<le> 0 then del_at i c1 else c1)
                      else if action = Some ''remove''
                      then del_at i c
                      else c)
            in \<lparr>resp = Redirect ''view_cart'' [], flashes = [(''Cart updated'', ''success'')],
                sess = s\<lparr>cart := Some c'\<rparr>, store = d\<rparr>)
         else \<lparr>resp = Redirect ''view_cart'' [], flashes = [], sess = s, store = d\<rparr>)"

section \<open>Order workflow\<close>

text \<open>
  The loop of \<open>checkout\<close> over the cart: one OrderItem per entry, in the cart's order, each
  with the next free primary key of its table.
\<close>

fun add_order_items :: "int \<Rightarrow> cart_item list \<Rightarrow> OrderItem list \<Rightarrow> OrderItem list" where
  "add_order_items oid [] ois = ois"
| "add_order_items oid (item # rest) ois =
     add_order_items oid rest
       (ois @ [\<lparr>oi_id = next_id (map oi_id ois), oi_order_id = oid, oi_menu_item_id = ci_id item,
                oi_quantity = ci_quantity item, oi_price = ci_price item\<rparr>])"

text \<open>
  The status of a new Order is the column default \<open>'Pending'\<close>. \<open>session['user_id']\<close> raises
  KeyError without the key; under \<open>login_required\<close> the key is there.
\<close>

definition checkout :: "float_ops \<Rightarrow> session \<Rightarrow> db \<Rightarrow> outcome" where
  "checkout ops s d =
     (let c = get_cart s
      in if c = []
         then \<lparr>resp = Redirect ''customer_menu'' [],
               flashes = [(''Your cart is empty'', ''warning'')], sess = s, store = d\<rparr>
         else
           (let total = cart_total ops c
            in case user_id s of
                 None \<Rightarrow> \<lparr>resp = Raised KeyError, flashes = [], sess = s, store = d\<rparr>
               | Some uid \<Rightarrow>
                   (let order = \<lparr>o_id = next_id (map o_id (orders d)), o_user_id = uid,
                                 o_total = total, o_status = ''Pending''\<rparr>;
                        d1 = d\<lparr>orders := orders d @ [order]\<rparr>;
                        d2 = d1\<lparr>order_items := add_order_items (o_id order) c (order_items d1)\<rparr>
                    in \<lparr>resp = Redirect ''order_confirmation'' [(''order_id'', o_id order)],
                        flashes = [(''Order placed successfully!'', ''success'')],
                        sess = s\<lparr>cart := None\<rparr>, store = d2\<rparr>)))"


text \<open>\<open>order.status = new_status; db.session.commit()\<close>: the row with that key is rewritten.\<close>

definition set_status :: "int \<Rightarrow> string \<Rightarrow> Order list \<Rightarrow> Order list" where
  "set_status order_id st os = map (\<lambda>row. if o_id row = order_id then row\<lparr>o_status := st\<rparr> else row) os"

definition update_order_status :: "int \<Rightarrow> form \<Rightarrow> session \<Rightarrow> db \<Rightarrow> outcome" where
  "update_order_status order_id frm s d =
     (case query_get o_id (orders d) order_id of
        None \<Rightarrow> \<lparr>resp = Abort 404, flashes = [], sess = s, store = d\<rparr>
      | Some order \<Rightarrow>
          (let invalid = \<lparr>resp = Redirect ''admin_orders'' [],
                          flashes = [(''Invalid status'', ''danger'')], sess = s, store = d\<rparr>
           in case frm ''status'' of
                None \<Rightarrow> invalid
              | Some new_status \<Rightarrow>
                  if new_status \<in> set [''Pending'', ''Completed'', ''Cancelled'']
                  then \<lparr>resp = Redirect ''admin_orders'' [],
                        flashes = [(''Order status updated'', ''success'')], sess = s,
                        store = d\<lparr>orders := set_status order_id new_status (orders d)\<rparr>\<rparr>
                  else invalid))"

section \<open>Menu administration\<close>

text \<open>
  \<open>add_item\<close> converts two form fields with Python's builtins \<open>float\<close> and \<open>int\<close>, which are
  not code of this application: the handler takes them as the parameters \<open>float_of\<close> and
  \<open>int_of\<close>, None being the ValueError of a string that does not parse. A field missing from
  the form is the argument None, on which both builtins raise TypeError. The conversions run
  before the check of the required fields.
\<close>

definition add_item ::
  "(string \<Rightarrow> real option) \<Rightarrow> (string \<Rightarrow> int option) \<Rightarrow> form \<Rightarrow> session \<Rightarrow> db \<Rightarrow> outcome" where
  "add_item float_of int_of frm s d =
     (let raised = (\<lambda>e. \<lparr>resp = Raised e, flashes = [], sess = s, store = d\<rparr>);
          name = frm ''name'';
          description = frm ''description''
      in case frm ''price'' of
           None \<Rightarrow> raised TypeError
         | Some price_str \<Rightarrow>
        (case float_of price_str of
           None \<Rightarrow> raised ValueError
         | Some price \<Rightarrow>
        (case frm ''category_id'' of
           None \<Rightarrow> raised TypeError
         | Some category_str \<Rightarrow>
        (case int_of category_str of
           None \<Rightarrow> raised ValueError
         | Some category_id \<Rightarrow>
             if name = None \<or> name = Some [] \<or> price = 0 \<or> category_id = 0
             then \<lparr>resp = Redirect ''admin_menu'' [],
                   flashes = [(''Name, price and category are required'', ''danger'')],
                   sess = s, store = d\<rparr>
             else
               (let new_item = \<lparr>mi_id = next_id (map mi_id (menu_items d)),
                                mi_name = (case name of Some n \<Rightarrow> n | None \<Rightarrow> []),
                                mi_description = description, mi_price = price,
                                mi_image = Some ''default.jpg'', mi_category_id = category_id\<rparr>
                in \<lparr>resp = Redirect ''admin_menu'' [],
                    flashes = [(''Menu item added successfully'', ''success'')], sess = s,
                    store = d\<lparr>menu_items := menu_items d @ [new_item]\<rparr>\<rparr>)))))"

subsection \<open>Plain decimal literals\<close>

text \<open>
  The behaviour of \<open>int\<close> and \<open>float\<close> on plain decimal literals (an optional sign, digits,
  and for \<open>float\<close> an optional fraction), used where a handler is evaluated on a concrete
  form. A literal is read as its exact decimal value, which is the value of the float when a
  double holds it exactly, as for the literals evaluated below. Every other string is
  answered None here, which is right for a string that holds no number at all; the general
  theorems below do not depend on these two functions.
\<close>

definition digit_val :: "char \<Rightarrow> nat option" where
  "digit_val ch = map_of (zip ''0123456789'' [0 ..< 10]) ch"

fun digits_val :: "nat \<Rightarrow> string \<Rightarrow> nat option" where
  "digits_val acc [] = Some acc"
| "digits_val acc (ch # cs) =
     (case digit_val ch of None \<Rightarrow> None | Some v \<Rightarrow> digits_val (10 * acc + v) cs)"

definition unsigned_int :: "string \<Rightarrow> nat option" where
  "unsigned_int str = (if str = [] then None else digits_val 0 str)"

definition unsigned_float :: "string \<Rightarrow> real option" where
  "unsigned_float str =
     (let ip = takeWhile (\<lambda>ch. ch \<noteq> CHR ''.'') str;
          rest = dropWhile (\<lambda>ch. ch \<noteq> CHR ''.'') str
      in if rest = [] then map_option real (unsigned_int ip)
         else (let fp = tl rest
               in if ip = [] \<and> fp = [] then None
                  else (case digits_val 0 (ip @ fp) of
                          None \<Rightarrow> None
                        | Some n \<Rightarrow> Some (real n / 10 ^ length fp))))"

definition signed :: "(string \<Rightarrow> 'a option) \<Rightarrow> ('a \<Rightarrow> 'a) \<Rightarrow> string \<Rightarrow> 'a option" where
  "signed p neg str =
     (case str of
        [] \<Rightarrow> None
      | ch # cs \<Rightarrow>
          if ch = CHR ''-'' then map_option neg (p cs)
          else if ch = CHR ''+'' then p cs
          else p str)"

definition py_int :: "string \<Rightarrow> int option" where
  "py_int = signed (\<lambda>str. map_option int (unsigned_int str)) uminus"

definition py_float :: "string \<Rightarrow> real option" where
  "py_float = signed unsigned_float uminus"

section \<open>Double precision arithmetic\<close>

text \<open>
  The float operations as CPython carries them out on IEEE 754 doubles, for evaluating a
  handler on concrete numbers. A double is an integer of at most 53 bits times a power of
  two, the exponent being at least -1074; an operation answers the double nearest to the
  exact result, a tie going to the even integer. \<open>ulp_exponent x\<close> is the exponent of the
  doubles around \<open>x\<close>, found by doubling or halving \<open>x\<close> until it has 53 bits. Results
  beyond the largest double, which are infinite in Python, are outside this model.
\<close>

definition round_half_even :: "real \<Rightarrow> int" where
  "round_half_even x =
     (let f = \<lfloor>x\<rfloor>; d = x - of_int f
      in if d < 1 / 2 then f else if 1 / 2 < d then f + 1 else if even f then f else f + 1)"

fun scale_up :: "nat \<Rightarrow> real \<Rightarrow> int \<Rightarrow> int" where
  "scale_up n m e = (if n = 0 \<or> 2 ^ 52 \<le> m then e else scale_up (n - 1) (2 * m) (e - 1))"

fun scale_down :: "nat \<Rightarrow> real \<Rightarrow> int \<Rightarrow> int" where
  "scale_down n m e = (if n = 0 \<or> m < 2 ^ 53 then e else scale_down (n - 1) (m / 2) (e + 1))"

declare scale_up.simps [simp del] scale_down.simps [simp del]

definition ulp_exponent :: "real \<Rightarrow> int" where
  "ulp_exponent x =
     (if 2 ^ 53 \<le> \<bar>x\<bar> then scale_down 971 \<bar>x\<bar> 0 else scale_up 1074 \<bar>x\<bar> 0)"

definition round_double :: "real \<Rightarrow> real" where
  "round_double x =
     (let e = ulp_exponent x in of_int (round_half_even (x / 2 powi e)) * 2 powi e)"

text \<open>
  \<open>sum\<close> adds the floats from 0, left to right, each addition rounded (CPython before 3.12;
  later versions carry a compensation term, and every version answers the element itself
  on a list of one element). A float times an int converts the int to a double first.
\<close>

definition double_ops :: float_ops where
  "double_ops =
     \<lparr>float_sum = foldl (\<lambda>acc x. round_double (acc + x)) 0,
      float_mul = (\<lambda>p q. round_double (p * round_double (real_of_int q)))\<rparr>"


section \<open>Routes\<close>

text \<open>The functions that \<open>app.route\<close> registers: each handler under its guard.\<close>

definition add_to_cart_route :: "int \<Rightarrow> session \<Rightarrow> db \<Rightarrow> outcome" where
  "add_to_cart_route item_id = login_required (add_to_cart item_id)"

definition view_cart_route :: "float_ops \<Rightarrow> session \<Rightarrow> db \<Rightarrow> outcome" where
  "view_cart_route ops = login_required (view_cart ops)"

definition update_cart_route :: "int \<Rightarrow> form \<Rightarrow> session \<Rightarrow> db \<Rightarrow> outcome" where
  "update_cart_route index frm = login_required (update_cart index frm)"

definition checkout_route :: "float_ops \<Rightarrow> session \<Rightarrow> db \<Rightarrow> outcome" where
  "checkout_route ops = login_required (checkout ops)"


definition update_order_status_route :: "int \<Rightarrow> form \<Rightarrow> session \<Rightarrow> db \<Rightarrow> outcome" where
  "update_order_status_route order_id frm = admin_required (update_order_status order_id frm)"

definition add_item_route ::
  "(string \<Rightarrow> real option) \<Rightarrow> (string \<Rightarrow> int option) \<Rightarrow> form \<Rightarrow> session \<Rightarrow> db \<Rightarrow> outcome" where
  "add_item_route float_of int_of frm = admin_required (add_item float_of int_of frm)"

section \<open>Example data\<close>

text \<open>
  A small database and two sessions on which the handlers are evaluated: an administrator
  (user 1), two customers (users 2 and 3), two menu items, and one completed order of user 3.
\<close>

definition pizza :: MenuItem where
  "pizza = \<lparr>mi_id = 1, mi_name = ''Pizza'', mi_description = None, mi_price = 5,
            mi_image = Some ''default.jpg'', mi_category_id = 1\<rparr>"

definition soup :: MenuItem where
  "soup = \<lparr>mi_id = 2, mi_name = ''Soup'', mi_description = None, mi_price = 7 / 2,
           mi_image = Some ''default.jpg'', mi_category_id = 1\<rparr>"


definition example_db :: db where
  "example_db =
     \<lparr>users = [\<lparr>u_id = 1, u_username = ''admin'', u_email = ''admin@example.com'',
                 u_password = ''x'', u_is_admin = True\<rparr>,
                \<lparr>u_id = 2, u_username = ''ann'', u_email = ''ann@example.com'',
                 u_password = ''y'', u_is_admin = False\<rparr>,
                \<lparr>u_id = 3, u_username = ''bob'', u_email = ''bob@example.com'',
                 u_password = ''z'', u_is_admin = False\<rparr>],
      categories = [\<lparr>c_id = 1, c_name = ''Main''\<rparr>],
      menu_items = [pizza, soup],
      orders = [\<lparr>o_id = 1, o_user_id = 3, o_total = 5, o_status = ''Completed''\<rparr>],
      order_items = [\<lparr>oi_id = 1, oi_order_id = 1, oi_menu_item_id = 1, oi_quantity = 1,
                      oi_price = 5\<rparr>]\<rparr>"


definition cart_entry :: "MenuItem \<Rightarrow> int \<Rightarrow> cart_item" where
  "cart_entry item q = \<lparr>ci_id = mi_id item, ci_name = mi_name item, ci_price = mi_price item,
                        ci_quantity = q, ci_image = mi_image item\<rparr>"

definition customer_session :: "cart_item list option \<Rightarrow> session" where
  "customer_session c = \<lparr>user_id = Some 2, username = Some ''ann'', is_admin = Some False,
                          cart = c\<rparr>"

definition admin_session :: session where
  "admin_session = \<lparr>user_id = Some 1, username = Some ''admin'', is_admin = Some True,
                     cart = None\<rparr>"

section \<open>Auxiliary facts\<close>

lemma login_required_logged_in: "user_id s \<noteq> None \<Longrightarrow> login_required f s d = f s d"
  by (auto simp: login_required_def)

lemma query_get_SomeD: "query_get key rows k = Some r \<Longrightarrow> key r = k \<and> r \<in> set rows"
  unfolding query_get_def by (induction rows) (auto split: if_splits)




lemma increment_existing_quantities:
  "increment_existing iid c = Some c' \<Longrightarrow> \<forall>e\<in>set c. 1 \<le> ci_quantity e \<Longrightarrow>
     \<forall>e\<in>set c'. 1 \<le> ci_quantity e"
  by (induction c arbitrary: c') (auto split: if_splits)


lemma double_evals:
  "round_double 0 = 0" "round_double 1 = 1" "round_double 2 = 2" "round_double 5 = 5"
  "round_double 10 = 10" "round_double (7 / 2) = 7 / 2" "round_double (27 / 2) = 27 / 2"
  "round_double (17 / 2) = 17 / 2" "round_double 3 = 3"
  "round_double (10808639105689191 / 36028797018963968) = 5404319552844596 / 18014398509481984"
  "round_double (1351079888211149 / 4503599627370496) = 1351079888211149 / 4503599627370496"
  by (simp_all add: round_double_def ulp_exponent_def scale_up.simps round_half_even_def
      power_int_minus Let_def)

lemma get_cart_add_to_cart:
  assumes "query_get mi_id (menu_items d) item_id = Some item"
  shows "get_cart (sess (add_to_cart item_id s d)) =
     (case increment_existing item_id (get_cart s) of
        Some c' \<Rightarrow> c'
      | None \<Rightarrow> get_cart s @ [\<lparr>ci_id = item_id, ci_name = mi_name item, ci_price = mi_price item,
                              ci_quantity = 1, ci_image = mi_image item\<rparr>])"
proof -
  have id: "mi_id item = item_id" using query_get_SomeD[OF assms] by simp
  show ?thesis using assms id
    by (simp add: add_to_cart_def get_cart_def Let_def split: option.splits)
qed

section \<open>Adding to the cart\<close>




section \<open>Updating the cart\<close>

lemma get_cart_update: "get_cart (s\<lparr>cart := Some c\<rparr>) = c"
  by (simp add: get_cart_def)

lemma del_at_update: "del_at i (xs[i := x]) = del_at i xs"
  by (simp add: del_at_def)

lemma set_del_at: "set (del_at i xs) \<subseteq> set xs"
  using set_take_subset[of i xs] set_drop_subset[of "Suc i" xs] by (auto simp: del_at_def)

lemma update_keeps_quantities:
  assumes "\<forall>e\<in>set c. 1 \<le> ci_quantity e" and "1 \<le> ci_quantity x"
  shows "\<forall>e\<in>set (c[i := x]). 1 \<le> ci_quantity e"
  using assms set_update_subset_insert[of c i x] by auto

lemma del_at_keeps_quantities:
  assumes "\<forall>e\<in>set c. 1 \<le> ci_quantity e"
  shows "\<forall>e\<in>set (del_at i c). 1 \<le> ci_quantity e"
  using assms set_del_at[of i c] by auto

lemma add_to_cart_keeps_quantities:
  assumes "\<forall>e\<in>set (get_cart s). 1 \<le> ci_quantity e"
  shows "\<forall>e\<in>set (get_cart (sess (add_to_cart item_id s d))). 1 \<le> ci_quantity e"
proof (cases "query_get mi_id (menu_items d) item_id")
  case None
  with assms show ?thesis
    by (auto simp: add_to_cart_def get_cart_def Let_def split: option.splits)
next
  case (Some item)
  show ?thesis
  proof (cases "increment_existing item_id (get_cart s)")
    case None
    with assms show ?thesis unfolding get_cart_add_to_cart[OF Some] by auto
  next
    case (Some t)
    with increment_existing_quantities[OF Some assms] show ?thesis
      unfolding get_cart_add_to_cart[OF \<open>query_get mi_id (menu_items d) item_id = Some item\<close>]
      by simp
  qed
qed

lemma update_cart_in_range:
  assumes "0 \<le> index" and "index < int (length (get_cart s))"
  shows "get_cart (sess (update_cart index frm s d)) =
    (let c = get_cart s; i = nat index in
     if frm ''action'' = Some ''increase''
     then c[i := (c ! i)\<lparr>ci_quantity := ci_quantity (c ! i) + 1\<rparr>]
     else if frm ''action'' = Some ''decrease''
     then (if ci_quantity (c ! i) \<le> 1 then del_at i c
           else c[i := (c ! i)\<lparr>ci_quantity := ci_quantity (c ! i) - 1\<rparr>])
     else if frm ''action'' = Some ''remove'' then del_at i c
     else c)"
proof -
  have i: "nat index < length (get_cart s)" using assms by linarith
  show ?thesis using assms i
    by (simp add: update_cart_def Let_def del_at_update get_cart_update)
qed

lemma update_cart_out_of_range:
  assumes "\<not> (0 \<le> index \<and> index < int (length (get_cart s)))"
  shows "update_cart index frm s d =
    \<lparr>resp = Redirect ''view_cart'' [], flashes = [], sess = s, store = d\<rparr>"
  using assms by (simp add: update_cart_def Let_def)

lemma update_cart_keeps_quantities:
  assumes "\<forall>e\<in>set (get_cart s). 1 \<le> ci_quantity e"
  shows "\<forall>e\<in>set (get_cart (sess (update_cart index frm s d))). 1 \<le> ci_quantity e"
proof (cases "0 \<le> index \<and> index < int (length (get_cart s))")
  case False
  then show ?thesis using assms by (simp add: update_cart_out_of_range)
next
  case True
  then have i: "nat index < length (get_cart s)" by linarith
  then have q: "1 \<le> ci_quantity (get_cart s ! nat index)" using assms by simp
  have inc: "\<forall>e\<in>set ((get_cart s)[nat index := (get_cart s ! nat index)
               \<lparr>ci_quantity := ci_quantity (get_cart s ! nat index) + 1\<rparr>]). 1 \<le> ci_quantity e"
    using q by (intro update_keeps_quantities[OF assms]) simp
  have dec: "\<not> ci_quantity (get_cart s ! nat index) \<le> 1 \<Longrightarrow>
      \<forall>e\<in>set ((get_cart s)[nat index := (get_cart s ! nat index)
               \<lparr>ci_quantity := ci_quantity (get_cart s ! nat index) - 1\<rparr>]). 1 \<le> ci_quantity e"
    by (intro update_keeps_quantities[OF assms]) simp
  from True have eq: "get_cart (sess (update_cart index frm s d)) =
    (let c = get_cart s; i = nat index in
     if frm ''action'' = Some ''increase''
     then c[i := (c ! i)\<lparr>ci_quantity := ci_quantity (c ! i) + 1\<rparr>]
     else if frm ''action'' = Some ''decrease''
     then (if ci_quantity (c ! i) \<le> 1 then del_at i c
           else c[i := (c ! i)\<lparr>ci_quantity := ci_quantity (c ! i) - 1\<rparr>])
     else if frm ''action'' = Some ''remove'' then del_at i c
     else c)" by (intro update_cart_in_range) simp_all
  show ?thesis unfolding eq Let_def
    using inc dec del_at_keeps_quantities[OF assms, of "nat index"] assms
    by (cases "frm ''action'' = Some ''increase''"; cases "frm ''action'' = Some ''decrease''";
        cases "frm ''action'' = Some ''remove''";
        cases "ci_quantity (get_cart s ! nat index) \<le> 1"; simp)
qed

text \<open>
  Claim C6. When every entry of the session cart has quantity at least 1, the same holds after
  an \<open>add_to_cart\<close> request and after an \<open>update_cart\<close> request, for every item id, index,
  form and database, logged in or not. In particular a decrease of an entry whose quantity is
  1 or less deletes that entry: the cart afterwards is the cart without position \<open>index\<close>.
\<close>

theorem cart_operations_keep_quantities_positive:
  assumes "\<forall>e\<in>set (get_cart s). 1 \<le> ci_quantity e"
  shows "(\<forall>e\<in>set (get_cart (sess (add_to_cart_route item_id s d))). 1 \<le> ci_quantity e) \<and>
         (\<forall>e\<in>set (get_cart (sess (update_cart_route index frm s d))). 1 \<le> ci_quantity e) \<and>
         (user_id s \<noteq> None \<and> 0 \<le> index \<and> index < int (length (get_cart s)) \<and>
          frm ''action'' = Some ''decrease'' \<and> ci_quantity (get_cart s ! nat index) \<le> 1 \<longrightarrow>
            get_cart (sess (update_cart_route index frm s d)) =
              take (nat index) (get_cart s) @ drop (Suc (nat index)) (get_cart s))"
proof (intro conjI impI)
  show "\<forall>e\<in>set (get_cart (sess (add_to_cart_route item_id s d))). 1 \<le> ci_quantity e"
    using assms add_to_cart_keeps_quantities[OF assms, of item_id d]
    by (cases "user_id s = None") (simp_all add: add_to_cart_route_def login_required_def)
  show "\<forall>e\<in>set (get_cart (sess (update_cart_route index frm s d))). 1 \<le> ci_quantity e"
    using assms update_cart_keeps_quantities[OF assms, of index frm d]
    by (cases "user_id s = None") (simp_all add: update_cart_route_def login_required_def)
next
  assume a: "user_id s \<noteq> None \<and> 0 \<le> index \<and> index < int (length (get_cart s)) \<and>
          frm ''action'' = Some ''decrease'' \<and> ci_quantity (get_cart s ! nat index) \<le> 1"
  then have "update_cart_route index frm s d = update_cart index frm s d"
    by (simp add: update_cart_route_def login_required_logged_in)
  moreover from a have "get_cart (sess (update_cart index frm s d)) = del_at (nat index) (get_cart s)"
    by (simp add: update_cart_in_range Let_def)
  ultimately show "get_cart (sess (update_cart_route index frm s d)) =
              take (nat index) (get_cart s) @ drop (Suc (nat index)) (get_cart s)"
    by (simp add: del_at_def)
qed

theorem cart_operations_keep_quantities_positive_witness:
  "list_all (\<lambda>e. 1 \<le> ci_quantity e)
     (get_cart (customer_session (Some [cart_entry pizza 1, cart_entry soup 2]))) \<and>
   user_id (customer_session (Some [cart_entry pizza 1, cart_entry soup 2])) \<noteq> None \<and>
   (0::int) \<le> 0 \<and>
   0 < int (length (get_cart (customer_session (Some [cart_entry pizza 1, cart_entry soup 2])))) \<and>
   [''action'' \<mapsto> ''decrease''] ''action'' = Some ''decrease'' \<and>
   ci_quantity (get_cart (customer_session (Some [cart_entry pizza 1, cart_entry soup 2])) ! nat 0) \<le> 1 \<and>
   get_cart (sess (update_cart_route 0 [''action'' \<mapsto> ''decrease'']
       (customer_session (Some [cart_entry pizza 1, cart_entry soup 2])) example_db))
     = [cart_entry soup 2] \<and>
   list_all (\<lambda>e. 1 \<le> ci_quantity e)
     (get_cart (sess (update_cart_route 0 [''action'' \<mapsto> ''decrease'']
       (customer_session (Some [cart_entry pizza 1, cart_entry soup 2])) example_db))) \<and>
   get_cart (sess (add_to_cart_route 2
       (customer_session (Some [cart_entry pizza 1, cart_entry soup 2])) example_db))
     = [cart_entry pizza 1, cart_entry soup 3]"
  using cart_operations_keep_quantities_positive
          [of "customer_session (Some [cart_entry pizza 1, cart_entry soup 2])" 2 example_db 0
              "[''action'' \<mapsto> ''decrease'']"]
  by (simp add: customer_session_def example_db_def pizza_def soup_def cart_entry_def
      query_get_def get_cart_def add_to_cart_route_def login_required_def add_to_cart_def
      update_cart_route_def update_cart_def Let_def del_at_def)

text \<open>
  Claim C10. For a logged-in user and an index that is not in the range from 0 to the length of
  the cart, \<open>update_cart\<close> answers with a redirect to the cart view, flashes nothing, raises
  nothing and leaves the session, the cart in it, and the database as they were, whatever
  the form holds.
\<close>

theorem update_cart_index_out_of_range:
  assumes "user_id s \<noteq> None" and "\<not> (0 \<le> index \<and> index < int (length (get_cart s)))"
  shows "update_cart_route index frm s d =
    \<lparr>resp = Redirect ''view_cart'' [], flashes = [], sess = s, store = d\<rparr>"
  using assms by (simp add: update_cart_route_def login_required_logged_in update_cart_out_of_range)

theorem update_cart_index_out_of_range_witness:
  "user_id (customer_session (Some [cart_entry pizza 1])) \<noteq> None \<and>
   \<not> ((0::int) \<le> 1 \<and> 1 < int (length (get_cart (customer_session (Some [cart_entry pizza 1]))))) \<and>
   update_cart_route 1 [''action'' \<mapsto> ''remove''] (customer_session (Some [cart_entry pizza 1]))
       example_db =
     \<lparr>resp = Redirect ''view_cart'' [], flashes = [],
      sess = customer_session (Some [cart_entry pizza 1]), store = example_db\<rparr>"
  using update_cart_index_out_of_range
          [of "customer_session (Some [cart_entry pizza 1])" 1 "[''action'' \<mapsto> ''remove'']" example_db]
  by (simp add: customer_session_def get_cart_def)

section \<open>Checkout\<close>

lemma fold_max_ge: "(a::int) \<le> fold max ids a"
  by (induction ids arbitrary: a) (auto intro: order_trans[OF max.cobounded2])

lemma fold_max_bounds: "x \<in> set ids \<Longrightarrow> (x::int) \<le> fold max ids a"
proof (induction ids arbitrary: a)
  case Nil
  then show ?case by simp
next
  case (Cons y ys)
  show ?case
  proof (cases "x = y")
    case True
    have "y \<le> max y a" by simp
    also have "\<dots> \<le> fold max ys (max y a)" by (rule fold_max_ge)
    finally show ?thesis using True by simp
  next
    case False
    with Cons.prems have "x \<in> set ys" by simp
    then show ?thesis using Cons.IH by simp
  qed
qed

lemma next_id_fresh: "next_id ids \<notin> set ids"
proof
  assume "next_id ids \<in> set ids"
  then have "next_id ids \<le> fold max ids 0" by (rule fold_max_bounds)
  then show False by (simp add: next_id_def)
qed

lemma add_order_items_appends:
  "\<exists>new. add_order_items oid c ois = ois @ new \<and>
     map (\<lambda>oi. (oi_order_id oi, oi_menu_item_id oi, oi_quantity oi, oi_price oi)) new =
     map (\<lambda>e. (oid, ci_id e, ci_quantity e, ci_price e)) c"
proof (induction c arbitrary: ois)
  case Nil
  show ?case by simp
next
  case (Cons e es)
  let ?row = "\<lparr>oi_id = next_id (map oi_id ois), oi_order_id = oid, oi_menu_item_id = ci_id e,
               oi_quantity = ci_quantity e, oi_price = ci_price e\<rparr>"
  from Cons.IH[of "ois @ [?row]"] obtain new where
    new: "add_order_items oid es (ois @ [?row]) = (ois @ [?row]) @ new"
      "map (\<lambda>oi. (oi_order_id oi, oi_menu_item_id oi, oi_quantity oi, oi_price oi)) new =
       map (\<lambda>e. (oid, ci_id e, ci_quantity e, ci_price e)) es"
    by blast
  show ?case
    by (rule exI[of _ "?row # new"]) (simp add: new)
qed

lemma checkout_nonempty:
  assumes "user_id s = Some uid" and "get_cart s \<noteq> []"
  shows "checkout ops s d =
    \<lparr>resp = Redirect ''order_confirmation'' [(''order_id'', next_id (map o_id (orders d)))],
     flashes = [(''Order placed successfully!'', ''success'')],
     sess = s\<lparr>cart := None\<rparr>,
     store = d\<lparr>orders := orders d @
                 [\<lparr>o_id = next_id (map o_id (orders d)), o_user_id = uid,
                   o_total = cart_total ops (get_cart s), o_status = ''Pending''\<rparr>],
               order_items := add_order_items (next_id (map o_id (orders d))) (get_cart s)
                                (order_items d)\<rparr>\<rparr>"
  using assms by (simp add: checkout_def Let_def)

text \<open>
  Claim C1. A checkout by a logged-in user with a non-empty cart succeeds: it leaves no cart in
  the session, and adds exactly one Order row, with a fresh id, the user's id, status Pending
  and a total equal to the total of the cart before the checkout (the one \<open>view_cart\<close>
  shows), and exactly one OrderItem row per cart entry, in the cart's order, each with the
  order's id and the item id, quantity and price of its entry. The other tables and the
  earlier rows stay as they were.
\<close>

theorem checkout_creates_order:
  assumes "user_id s = Some uid" and "get_cart s \<noteq> []"
  shows "\<exists>order new_items.
     resp (checkout_route ops s d) = Redirect ''order_confirmation'' [(''order_id'', o_id order)] \<and>
     flashes (checkout_route ops s d) = [(''Order placed successfully!'', ''success'')] \<and>
     cart (sess (checkout_route ops s d)) = None \<and>
     get_cart (sess (checkout_route ops s d)) = [] \<and>
     user_id (sess (checkout_route ops s d)) = Some uid \<and>
     orders (store (checkout_route ops s d)) = orders d @ [order] \<and>
     o_id order \<notin> set (map o_id (orders d)) \<and>
     o_user_id order = uid \<and>
     o_status order = ''Pending'' \<and>
     o_total order = cart_total ops (get_cart s) \<and>
     resp (view_cart_route ops s d) = Render_cart (get_cart s) (o_total order) \<and>
     order_items (store (checkout_route ops s d)) = order_items d @ new_items \<and>
     length new_items = length (get_cart s) \<and>
     map (\<lambda>oi. (oi_order_id oi, oi_menu_item_id oi, oi_quantity oi, oi_price oi)) new_items =
       map (\<lambda>e. (o_id order, ci_id e, ci_quantity e, ci_price e)) (get_cart s) \<and>
     users (store (checkout_route ops s d)) = users d \<and>
     categories (store (checkout_route ops s d)) = categories d \<and>
     menu_items (store (checkout_route ops s d)) = menu_items d"
proof -
  let ?oid = "next_id (map o_id (orders d))"
  let ?order = "\<lparr>o_id = ?oid, o_user_id = uid, o_total = cart_total ops (get_cart s),
                  o_status = ''Pending''\<rparr>"
  have logged: "user_id s \<noteq> None" using assms(1) by simp
  have route: "checkout_route ops s d = checkout ops s d"
    by (simp add: checkout_route_def login_required_logged_in[OF logged])
  have view: "resp (view_cart_route ops s d) = Render_cart (get_cart s) (cart_total ops (get_cart s))"
    by (simp add: view_cart_route_def login_required_logged_in[OF logged] view_cart_def Let_def)
  obtain new where
    new: "add_order_items ?oid (get_cart s) (order_items d) = order_items d @ new"
      "map (\<lambda>oi. (oi_order_id oi, oi_menu_item_id oi, oi_quantity oi, oi_price oi)) new =
       map (\<lambda>e. (?oid, ci_id e, ci_quantity e, ci_price e)) (get_cart s)"
    using add_order_items_appends[of ?oid "get_cart s" "order_items d"] by blast
  from new(2) have len: "length new = length (get_cart s)"
    by (rule map_eq_imp_length_eq)
  have fresh: "?oid \<notin> set (map o_id (orders d))" by (rule next_id_fresh)
  show ?thesis
    unfolding route checkout_nonempty[OF assms]
    by (rule exI[of _ ?order], rule exI[of _ new])
       (use new len fresh assms(1) view in \<open>simp add: get_cart_def\<close>)
qed

theorem checkout_creates_order_witness:
  "user_id (customer_session (Some [cart_entry pizza 2, cart_entry soup 1])) = Some 2 \<and>
   get_cart (customer_session (Some [cart_entry pizza 2, cart_entry soup 1])) \<noteq> [] \<and>
   checkout_route double_ops (customer_session (Some [cart_entry pizza 2, cart_entry soup 1])) example_db =
     \<lparr>resp = Redirect ''order_confirmation'' [(''order_id'', 2)],
      flashes = [(''Order placed successfully!'', ''success'')],
      sess = customer_session None,
      store = example_db
        \<lparr>orders := orders example_db @
           [\<lparr>o_id = 2, o_user_id = 2, o_total = 27 / 2, o_status = ''Pending''\<rparr>],
         order_items := order_items example_db @
           [\<lparr>oi_id = 2, oi_order_id = 2, oi_menu_item_id = 1, oi_quantity = 2, oi_price = 5\<rparr>,
            \<lparr>oi_id = 3, oi_order_id = 2, oi_menu_item_id = 2, oi_quantity = 1,
              oi_price = 7 / 2\<rparr>]\<rparr>\<rparr>"
  using checkout_creates_order
          [where s = "customer_session (Some [cart_entry pizza 2, cart_entry soup 1])"
             and uid = 2 and d = example_db and ops = double_ops]
  by (simp add: customer_session_def example_db_def pizza_def soup_def cart_entry_def
      get_cart_def checkout_route_def login_required_def checkout_def cart_total_def
      double_ops_def double_evals next_id_def Let_def)

text \<open>
  Claim C4. When the session cart is empty (no cart in the session, or an empty list), a
  checkout request leaves the database and the session unchanged, so it creates neither an
  Order nor an OrderItem; for a logged-in user the answer is a redirect to the menu with the
  warning that the cart is empty.
\<close>

theorem checkout_empty_cart:
  assumes "get_cart s = []"
  shows "store (checkout_route ops s d) = d \<and> sess (checkout_route ops s d) = s \<and>
         (user_id s \<noteq> None \<longrightarrow>
            resp (checkout_route ops s d) = Redirect ''customer_menu'' [] \<and>
            flashes (checkout_route ops s d) = [(''Your cart is empty'', ''warning'')])"
  using assms by (simp add: checkout_route_def login_required_def checkout_def Let_def)

theorem checkout_empty_cart_witness:
  "get_cart (customer_session (Some [])) = [] \<and>
   user_id (customer_session (Some [])) \<noteq> None \<and>
   checkout_route double_ops (customer_session (Some [])) example_db =
     \<lparr>resp = Redirect ''customer_menu'' [], flashes = [(''Your cart is empty'', ''warning'')],
      sess = customer_session (Some []), store = example_db\<rparr> \<and>
   get_cart (customer_session None) = [] \<and>
   checkout_route double_ops (customer_session None) example_db =
     \<lparr>resp = Redirect ''customer_menu'' [], flashes = [(''Your cart is empty'', ''warning'')],
      sess = customer_session None, store = example_db\<rparr>"
  using checkout_empty_cart [where s = "customer_session (Some [])" and d = example_db
                               and ops = double_ops]
        checkout_empty_cart [where s = "customer_session None" and d = example_db
                               and ops = double_ops]
  by (simp add: customer_session_def get_cart_def checkout_route_def login_required_def
      checkout_def Let_def)

section \<open>Order status\<close>

lemma admin_required_admin:
  assumes "user_id s = Some uid" and "query_get u_id (users d) uid = Some u" and "u_is_admin u"
  shows "admin_required f s d = f s d"
  using assms by (simp add: admin_required_def Let_def)

lemma query_get_set_status_same:
  "query_get o_id os order_id = Some order \<Longrightarrow>
     query_get o_id (set_status order_id st os) order_id = Some (order\<lparr>o_status := st\<rparr>)"
  unfolding query_get_def set_status_def by (induction os) (auto split: if_splits)

lemma query_get_set_status_other:
  "k \<noteq> order_id \<Longrightarrow> query_get o_id (set_status order_id st os) k = query_get o_id os k"
  unfolding query_get_def set_status_def by (induction os) auto

lemma orders_update_order_status:
  assumes "query_get o_id (orders d) order_id = Some order"
  shows "orders (store (update_order_status order_id frm s d)) =
    (case frm ''status'' of
       None \<Rightarrow> orders d
     | Some st \<Rightarrow> if st \<in> {''Pending'', ''Completed'', ''Cancelled''}
                  then set_status order_id st (orders d) else orders d)"
  using assms by (simp add: update_order_status_def Let_def split: option.splits)

text \<open>
  Claim C2, as stated, fails: the handler does not look at the current status. An
  administrator's request with status Pending takes the completed order 1 of the example
  database back to Pending, so Completed is not terminal.
\<close>

theorem update_order_status_completed_to_pending:
  "orders example_db = [\<lparr>o_id = 1, o_user_id = 3, o_total = 5, o_status = ''Completed''\<rparr>] \<and>
   orders (store (update_order_status_route 1 [''status'' \<mapsto> ''Pending''] admin_session
                    example_db))
     = [\<lparr>o_id = 1, o_user_id = 3, o_total = 5, o_status = ''Pending''\<rparr>]"
  by (simp add: example_db_def admin_session_def update_order_status_route_def
      admin_required_def update_order_status_def query_get_def set_status_def Let_def)

lemma query_get_set_status:
  "query_get o_id (set_status order_id st os) k =
     (if k = order_id then map_option (\<lambda>row. row\<lparr>o_status := st\<rparr>) (query_get o_id os k)
      else query_get o_id os k)"
  unfolding query_get_def set_status_def by (induction os) auto

lemma ids_set_status: "map o_id (set_status order_id st os) = map o_id os"
  by (simp add: set_status_def)

lemma statuses_set_status:
  assumes "\<forall>row\<in>set os. o_status row \<in> A" and "st \<in> A"
  shows "\<forall>row\<in>set (set_status order_id st os). o_status row \<in> A"
  using assms by (auto simp: set_status_def)

lemma store_update_order_status_route:
  "store (update_order_status_route order_id frm s d) = d \<or>
   (\<exists>st\<in>{''Pending'', ''Completed'', ''Cancelled''}.
      store (update_order_status_route order_id frm s d) =
        d\<lparr>orders := set_status order_id st (orders d)\<rparr>)"
  by (auto simp: update_order_status_route_def admin_required_def update_order_status_def Let_def
      split: option.splits)

text \<open>
  Claim C2, amended. For an administrator and an existing order, a request whose status field
  is one of Pending, Completed and Cancelled sets the order's status to that value whatever
  the current status is, so every transition among the three values is admitted and none of
  them is terminal. For every request, from an administrator or not, for an existing order or
  not and whatever the form holds: an order whose status is among the three values keeps a
  status among them, no order other than the requested one changes, no order is created or
  deleted, and the other tables stay as they were.
\<close>

theorem update_order_status_sets_any_allowed_status:
  "(\<forall>uid u order st.
      user_id s = Some uid \<and> query_get u_id (users d) uid = Some u \<and> u_is_admin u \<and>
      query_get o_id (orders d) order_id = Some order \<and>
      frm ''status'' = Some st \<and> st \<in> {''Pending'', ''Completed'', ''Cancelled''} \<longrightarrow>
        query_get o_id (orders (store (update_order_status_route order_id frm s d))) order_id
          = Some (order\<lparr>o_status := st\<rparr>)) \<and>
   (\<forall>k order.
      query_get o_id (orders d) k = Some order \<and>
      o_status order \<in> {''Pending'', ''Completed'', ''Cancelled''} \<longrightarrow>
        (\<exists>order'. query_get o_id (orders (store (update_order_status_route order_id frm s d))) k
                     = Some order' \<and>
                   o_status order' \<in> {''Pending'', ''Completed'', ''Cancelled''})) \<and>
   ((\<forall>row\<in>set (orders d). o_status row \<in> {''Pending'', ''Completed'', ''Cancelled''}) \<longrightarrow>
      (\<forall>row\<in>set (orders (store (update_order_status_route order_id frm s d))).
         o_status row \<in> {''Pending'', ''Completed'', ''Cancelled''})) \<and>
   (\<forall>k. k \<noteq> order_id \<longrightarrow>
      query_get o_id (orders (store (update_order_status_route order_id frm s d))) k
        = query_get o_id (orders d) k) \<and>
   map o_id (orders (store (update_order_status_route order_id frm s d))) = map o_id (orders d) \<and>
   users (store (update_order_status_route order_id frm s d)) = users d \<and>
   categories (store (update_order_status_route order_id frm s d)) = categories d \<and>
   menu_items (store (update_order_status_route order_id frm s d)) = menu_items d \<and>
   order_items (store (update_order_status_route order_id frm s d)) = order_items d"
proof -
  let ?out = "update_order_status_route order_id frm s d"
  let ?A = "{''Pending'', ''Completed'', ''Cancelled''}"
  have A: "\<forall>uid u order st.
      user_id s = Some uid \<and> query_get u_id (users d) uid = Some u \<and> u_is_admin u \<and>
      query_get o_id (orders d) order_id = Some order \<and>
      frm ''status'' = Some st \<and> st \<in> ?A \<longrightarrow>
        query_get o_id (orders (store ?out)) order_id = Some (order\<lparr>o_status := st\<rparr>)"
  proof (intro allI impI, elim conjE)
    fix uid u order st
    assume adm: "user_id s = Some uid" "query_get u_id (users d) uid = Some u" "u_is_admin u"
      and found: "query_get o_id (orders d) order_id = Some order"
      and st: "frm ''status'' = Some st" "st \<in> ?A"
    have "?out = update_order_status order_id frm s d"
      by (simp add: update_order_status_route_def admin_required_admin[OF adm])
    then have "orders (store ?out) = set_status order_id st (orders d)"
      using st by (simp add: orders_update_order_status[OF found])
    then show "query_get o_id (orders (store ?out)) order_id = Some (order\<lparr>o_status := st\<rparr>)"
      by (simp add: query_get_set_status_same[OF found])
  qed
  from store_update_order_status_route[of order_id frm s d]
  consider (same) "store ?out = d"
    | (set) st where "st \<in> ?A" "store ?out = d\<lparr>orders := set_status order_id st (orders d)\<rparr>"
    by blast
  then have rest:
    "(\<forall>k order. query_get o_id (orders d) k = Some order \<and> o_status order \<in> ?A \<longrightarrow>
        (\<exists>order'. query_get o_id (orders (store ?out)) k = Some order' \<and> o_status order' \<in> ?A)) \<and>
     ((\<forall>row\<in>set (orders d). o_status row \<in> ?A) \<longrightarrow>
        (\<forall>row\<in>set (orders (store ?out)). o_status row \<in> ?A)) \<and>
     (\<forall>k. k \<noteq> order_id \<longrightarrow> query_get o_id (orders (store ?out)) k = query_get o_id (orders d) k) \<and>
     map o_id (orders (store ?out)) = map o_id (orders d) \<and>
     users (store ?out) = users d \<and> categories (store ?out) = categories d \<and>
     menu_items (store ?out) = menu_items d \<and> order_items (store ?out) = order_items d"
  proof cases
    case same
    then show ?thesis by simp
  next
    case (set st)
    have B: "\<forall>k order. query_get o_id (orders d) k = Some order \<and> o_status order \<in> ?A \<longrightarrow>
        (\<exists>order'. query_get o_id (set_status order_id st (orders d)) k = Some order' \<and>
                   o_status order' \<in> ?A)"
      using set(1) by (auto simp: query_get_set_status)
    have C: "(\<forall>row\<in>set (orders d). o_status row \<in> ?A) \<longrightarrow>
        (\<forall>row\<in>set (set_status order_id st (orders d)). o_status row \<in> ?A)"
      using statuses_set_status[OF _ set(1)] by blast
    have D: "\<forall>k. k \<noteq> order_id \<longrightarrow>
        query_get o_id (set_status order_id st (orders d)) k = query_get o_id (orders d) k"
      by (simp add: query_get_set_status)
    from B C D show ?thesis unfolding set(2) by (simp add: ids_set_status)
  qed
  from A rest show ?thesis by blast
qed

theorem update_order_status_sets_any_allowed_status_witness:
  "user_id admin_session = Some 1 \<and>
   map_option u_is_admin (query_get u_id (users example_db) 1) = Some True \<and>
   map_option o_status (query_get o_id (orders example_db) 1) = Some ''Completed'' \<and>
   list_all (\<lambda>row. o_status row \<in> {''Pending'', ''Completed'', ''Cancelled''})
     (orders example_db) \<and>
   [''status'' \<mapsto> ''Cancelled''] ''status'' = Some ''Cancelled'' \<and>
   ''Cancelled'' \<in> {''Pending'', ''Completed'', ''Cancelled''} \<and>
   query_get o_id
     (orders (store (update_order_status_route 1 [''status'' \<mapsto> ''Cancelled''] admin_session
                      example_db))) 1
     = Some \<lparr>o_id = 1, o_user_id = 3, o_total = 5, o_status = ''Cancelled''\<rparr> \<and>
   (2::int) \<noteq> 1 \<and>
   query_get o_id
     (orders (store (update_order_status_route 1 [''status'' \<mapsto> ''Cancelled''] admin_session
                      example_db))) 2
     = query_get o_id (orders example_db) 2 \<and>
   store (update_order_status_route 1 [''status'' \<mapsto> ''Shipped'']
            (customer_session None) example_db)
     = example_db"
  using update_order_status_sets_any_allowed_status
          [where s = admin_session and d = example_db and order_id = 1
             and frm = "[''status'' \<mapsto> ''Cancelled'']"]
  by (simp add: example_db_def admin_session_def customer_session_def query_get_def
      update_order_status_route_def admin_required_def update_order_status_def set_status_def
      Let_def)

text \<open>
  Claim C3. For an administrator and an existing order, a request whose status field is
  missing or is any value other than Pending, Completed and Cancelled is answered with the
  error message \<open>Invalid status\<close> and a redirect to the list of orders; the database
  (the order's status with it) and the session are unchanged.
\<close>

theorem update_order_status_rejects_other_values:
  assumes "user_id s = Some uid" and "query_get u_id (users d) uid = Some u" and "u_is_admin u"
    and "query_get o_id (orders d) order_id = Some order"
    and "frm ''status'' \<notin> {Some ''Pending'', Some ''Completed'', Some ''Cancelled''}"
  shows "update_order_status_route order_id frm s d =
    \<lparr>resp = Redirect ''admin_orders'' [], flashes = [(''Invalid status'', ''danger'')],
     sess = s, store = d\<rparr>"
proof -
  have route: "update_order_status_route order_id frm s d = update_order_status order_id frm s d"
    by (simp add: update_order_status_route_def admin_required_admin[OF assms(1-3)])
  show ?thesis unfolding route using assms(4,5)
    by (auto simp: update_order_status_def Let_def split: option.splits)
qed

theorem update_order_status_rejects_other_values_witness:
  "user_id admin_session = Some 1 \<and>
   map_option u_is_admin (query_get u_id (users example_db) 1) = Some True \<and>
   map_option o_status (query_get o_id (orders example_db) 1) = Some ''Completed'' \<and>
   [''status'' \<mapsto> ''Shipped''] ''status''
     \<notin> {Some ''Pending'', Some ''Completed'', Some ''Cancelled''} \<and>
   update_order_status_route 1 [''status'' \<mapsto> ''Shipped''] admin_session example_db =
     \<lparr>resp = Redirect ''admin_orders'' [], flashes = [(''Invalid status'', ''danger'')],
      sess = admin_session, store = example_db\<rparr>"
  using update_order_status_rejects_other_values
          [of admin_session 1 example_db
              "\<lparr>u_id = 1, u_username = ''admin'', u_email = ''admin@example.com'',
                u_password = ''x'', u_is_admin = True\<rparr>"
              1 "\<lparr>o_id = 1, o_user_id = 3, o_total = 5, o_status = ''Completed''\<rparr>"
              "[''status'' \<mapsto> ''Shipped'']"]
  by (simp add: example_db_def admin_session_def query_get_def)

section \<open>Order confirmation and menu items\<close>





text \<open>
  Claim C8, as stated, fails: the handler only rejects a price that is zero. An administrator's
  form with the price \<open>-5\<close> is accepted and a menu item with the price -5 is stored.
\<close>

theorem add_item_negative_price:
  "menu_items (store (add_item_route py_float py_int
       [''name'' \<mapsto> ''Burger'', ''price'' \<mapsto> ''-5'', ''category_id'' \<mapsto> ''1'']
       admin_session example_db))
     = [pizza, soup,
        \<lparr>mi_id = 3, mi_name = ''Burger'', mi_description = None, mi_price = - 5,
         mi_image = Some ''default.jpg'', mi_category_id = 1\<rparr>] \<and>
   \<not> (0::real) < - 5"
  by (simp add: example_db_def admin_session_def add_item_route_def admin_required_def
      add_item_def query_get_def next_id_def pizza_def soup_def Let_def
      py_float_def py_int_def signed_def unsigned_float_def unsigned_int_def digit_val_def
      upt_rec)

text \<open>
  Claim C8, amended. Whenever \<open>add_item\<close> changes the database, whatever the conversions
  \<open>float\<close> and \<open>int\<close> answer, it appends exactly one menu item, with a fresh id, whose price
  is the converted price field and is different from zero (a negative price is stored as it
  is); its name is not empty and its category id is not zero.
\<close>

theorem add_item_stores_nonzero_price:
  assumes "store (add_item_route float_of int_of frm s d) \<noteq> d"
  shows "\<exists>item price_str.
           store (add_item_route float_of int_of frm s d) = d\<lparr>menu_items := menu_items d @ [item]\<rparr> \<and>
           frm ''price'' = Some price_str \<and> float_of price_str = Some (mi_price item) \<and>
           mi_price item \<noteq> 0 \<and> mi_name item \<noteq> [] \<and> mi_category_id item \<noteq> 0 \<and>
           mi_id item \<notin> set (map mi_id (menu_items d))"
proof -
  have body: "store (add_item float_of int_of frm s d) \<noteq> d"
    using assms
    by (auto simp: add_item_route_def admin_required_def Let_def split: option.splits if_splits)
  then obtain ps price cs cid n where
    f: "frm ''price'' = Some ps" "float_of ps = Some price" "frm ''category_id'' = Some cs"
       "int_of cs = Some cid" "frm ''name'' = Some n" "n \<noteq> []" "price \<noteq> 0" "cid \<noteq> 0"
    by (auto simp: add_item_def Let_def split: option.splits if_splits)
  let ?item = "\<lparr>mi_id = next_id (map mi_id (menu_items d)), mi_name = n,
                 mi_description = frm ''description'', mi_price = price,
                 mi_image = Some ''default.jpg'', mi_category_id = cid\<rparr>"
  from f have "store (add_item float_of int_of frm s d) = d\<lparr>menu_items := menu_items d @ [?item]\<rparr>"
    by (simp add: add_item_def Let_def)
  moreover have "store (add_item_route float_of int_of frm s d) = store (add_item float_of int_of frm s d)"
    using assms
    by (auto simp: add_item_route_def admin_required_def Let_def split: option.splits if_splits)
  ultimately show ?thesis
    using f next_id_fresh[of "map mi_id (menu_items d)"]
    by (intro exI[of _ ?item] exI[of _ ps]) simp
qed

theorem add_item_stores_nonzero_price_witness:
  "store (add_item_route py_float py_int
       [''name'' \<mapsto> ''Burger'', ''price'' \<mapsto> ''7.5'', ''category_id'' \<mapsto> ''1'']
       admin_session example_db) \<noteq> example_db \<and>
   menu_items (store (add_item_route py_float py_int
       [''name'' \<mapsto> ''Burger'', ''price'' \<mapsto> ''7.5'', ''category_id'' \<mapsto> ''1'']
       admin_session example_db))
     = [pizza, soup,
        \<lparr>mi_id = 3, mi_name = ''Burger'', mi_description = None, mi_price = 15 / 2,
         mi_image = Some ''default.jpg'', mi_category_id = 1\<rparr>]"
  using add_item_stores_nonzero_price
          [of py_float py_int
              "[''name'' \<mapsto> ''Burger'', ''price'' \<mapsto> ''7.5'', ''category_id'' \<mapsto> ''1'']"
              admin_session example_db]
  by (simp add: example_db_def admin_session_def add_item_route_def admin_required_def
      add_item_def query_get_def next_id_def pizza_def soup_def Let_def
      py_float_def py_int_def signed_def unsigned_float_def unsigned_int_def digit_val_def
      upt_rec)

text \<open>
  Claim C9 against the code. An administrator's form without the field \<open>price\<close> makes the
  handler raise TypeError, and a form whose price is \<open>abc\<close> makes it raise ValueError: the
  conversions run before the check that would flash the message about required fields, and
  nothing catches what they raise.
\<close>

theorem add_item_missing_or_malformed_price_raises:
  "add_item_route py_float py_int [''name'' \<mapsto> ''Burger'', ''category_id'' \<mapsto> ''1'']
       admin_session example_db
     = \<lparr>resp = Raised TypeError, flashes = [], sess = admin_session, store = example_db\<rparr> \<and>
   add_item_route py_float py_int
       [''name'' \<mapsto> ''Burger'', ''price'' \<mapsto> ''abc'', ''category_id'' \<mapsto> ''1'']
       admin_session example_db
     = \<lparr>resp = Raised ValueError, flashes = [], sess = admin_session, store = example_db\<rparr>"
  by (simp add: example_db_def admin_session_def add_item_route_def admin_required_def
      add_item_def query_get_def Let_def
      py_float_def py_int_def signed_def unsigned_float_def unsigned_int_def digit_val_def
      upt_rec)

end
